theory Spec2Isabelle
  imports Main "HOL-Library.Sublist"
begin

section \<open>JavaScript values\<close>

text \<open>
  The verify-otp response body is typed \<open>any\<close> in the source, and the user object and
  token that the login dialog hands to the auth context are built from it. They are modelled
  as run-time values. Numbers are the integer-valued ones (identifiers, counters, epoch
  milliseconds); an object is the list of its own properties; a string is the list of its
  code units, of which \<open>char\<close> holds those below 256.
\<close>

datatype jsval =
    JUndefined
  | JNull
  | JBool bool
  | JNum int
  | JStr string
  | JArr "jsval list"
  | JObj "(string \<times> jsval) list"

text \<open>\<open>!!v\<close>: the truthiness of a value.\<close>

fun truthy :: "jsval \<Rightarrow> bool" where
  "truthy JUndefined = False"
| "truthy JNull = False"
| "truthy (JBool b) = b"
| "truthy (JNum n) = (n \<noteq> 0)"
| "truthy (JStr s) = (s \<noteq> [])"
| "truthy (JArr xs) = True"
| "truthy (JObj kvs) = True"

text \<open>\<open>a || b\<close> and \<open>a ?? b\<close>.\<close>

definition js_or :: "jsval \<Rightarrow> jsval \<Rightarrow> jsval" where
  "js_or a b = (if truthy a then a else b)"

definition nullish :: "jsval \<Rightarrow> bool" where
  "nullish v = (v = JUndefined \<or> v = JNull)"

definition js_coalesce :: "jsval \<Rightarrow> jsval \<Rightarrow> jsval" where
  "js_coalesce a b = (if nullish a then b else a)"

text \<open>
  \<open>v.k\<close> for a value \<open>v\<close> that is neither \<open>null\<close> nor \<open>undefined\<close> (there the read
  throws a TypeError, which the callers below write out), and for the property names this
  program reads: none of them is a property of a string, number, boolean or array.
\<close>

fun get_prop :: "jsval \<Rightarrow> string \<Rightarrow> jsval" where
  "get_prop (JObj kvs) k = (case map_of kvs k of Some v \<Rightarrow> v | None \<Rightarrow> JUndefined)"
| "get_prop v k = JUndefined"

text \<open>\<open>v?.k\<close>.\<close>

definition opt_prop :: "jsval \<Rightarrow> string \<Rightarrow> jsval" where
  "opt_prop v k = (if nullish v then JUndefined else get_prop v k)"

text \<open>
  \<open>String(v)\<close>, the conversion a template literal applies. For a number it is the
  decimal text, which is the result of \<open>String\<close> for integers below \<open>10^21\<close> in absolute
  value.
\<close>

fun show_nat :: "nat \<Rightarrow> string" where
  "show_nat n =
     (if n < 10 then [''0123456789'' ! n]
      else show_nat (n div 10) @ [''0123456789'' ! (n mod 10)])"

definition show_int :: "int \<Rightarrow> string" where
  "show_int i = (if i < 0 then ''-'' @ show_nat (nat (- i)) else show_nat (nat i))"

fun join_comma :: "string list \<Rightarrow> string" where
  "join_comma [] = []"
| "join_comma [s] = s"
| "join_comma (s # t # ss) = s @ '','' @ join_comma (t # ss)"

fun js_String :: "jsval \<Rightarrow> string" where
  "js_String JUndefined = ''undefined''"
| "js_String JNull = ''null''"
| "js_String (JBool b) = (if b then ''true'' else ''false'')"
| "js_String (JNum n) = show_int n"
| "js_String (JStr s) = s"
| "js_String (JArr xs) =
     join_comma (map (\<lambda>x. if x = JUndefined \<or> x = JNull then [] else js_String x) xs)"
| "js_String (JObj kvs) = ''[object Object]''"

section \<open>AuthContext\<close>

definition AUTH_STORAGE_KEY :: string where
  "AUTH_STORAGE_KEY = ''lancorc_auth''"

definition EXPIRATION_MS :: int where
  "EXPIRATION_MS = 48 * 60 * 60 * 1000"

record AuthResponse =
  response_token :: jsval
  response_user :: jsval

text \<open>Local storage: \<open>getItem\<close> is the lookup, \<open>null\<close> is \<open>None\<close>.\<close>

type_synonym storage = "string \<rightharpoonup> string"

text \<open>
  The platform functions the code calls, taken as parameters: \<open>JSON.parse\<close> (\<open>None\<close>: it
  throws), \<open>JSON.stringify\<close>, the conversion of a string to a number (\<open>None\<close>: the result
  is NaN) and \<open>String.prototype.toUpperCase\<close>.
\<close>

record platform =
  JSON_parse :: "string \<Rightarrow> jsval option"
  JSON_stringify :: "jsval \<Rightarrow> string"
  StringToNumber :: "string \<Rightarrow> int option"
  String_toUpperCase :: "string \<Rightarrow> string"

text \<open>
  \<open>ToNumber\<close>, which the subtraction \<open>now - parsed.timestamp\<close> applies to its operand;
  \<open>None\<close> is NaN. An array or object is converted through its string.
\<close>

fun ToNumber :: "platform \<Rightarrow> jsval \<Rightarrow> int option" where
  "ToNumber P JUndefined = None"
| "ToNumber P JNull = Some 0"
| "ToNumber P (JBool b) = Some (if b then 1 else 0)"
| "ToNumber P (JNum n) = Some n"
| "ToNumber P (JStr s) = StringToNumber P s"
| "ToNumber P (JArr xs) = StringToNumber P (js_String (JArr xs))"
| "ToNumber P (JObj kvs) = StringToNumber P (js_String (JObj kvs))"

text \<open>
  The provider's three state cells together with the browser's local storage, which the
  provider and the users page share.
\<close>

record auth_state =
  user :: jsval
  token :: jsval
  isLoading :: bool
  localStorage :: storage

definition initial_auth :: "storage \<Rightarrow> auth_state" where
  "initial_auth ls = \<lparr>user = JNull, token = JNull, isLoading = True, localStorage = ls\<rparr>"

text \<open>
  The mount effect at time \<open>now\<close>. The test \<open>if (stored)\<close> skips a missing entry and the
  empty string alike. The parsed value is used unchecked: reading \<open>timestamp\<close> of \<open>null\<close>
  throws and ends in the \<open>catch\<close>, like a text that does not parse; a comparison with NaN
  is false, so a value whose \<open>timestamp\<close> is no number is restored.
\<close>

definition mount :: "platform \<Rightarrow> int \<Rightarrow> auth_state \<Rightarrow> auth_state" where
  "mount P now s =
     (case localStorage s AUTH_STORAGE_KEY of
        None \<Rightarrow> s\<lparr>isLoading := False\<rparr>
      | Some stored \<Rightarrow>
          if stored = [] then s\<lparr>isLoading := False\<rparr>
          else
            (case JSON_parse P stored of
               None \<Rightarrow>
                 s\<lparr>localStorage := (localStorage s)(AUTH_STORAGE_KEY := None),
                   isLoading := False\<rparr>
             | Some parsed \<Rightarrow>
                 if nullish parsed then
                   s\<lparr>localStorage := (localStorage s)(AUTH_STORAGE_KEY := None),
                     isLoading := False\<rparr>
                 else if (case ToNumber P (get_prop parsed ''timestamp'') of
                            None \<Rightarrow> False
                          | Some ts \<Rightarrow> now - ts > EXPIRATION_MS)
                 then s\<lparr>localStorage := (localStorage s)(AUTH_STORAGE_KEY := None),
                        isLoading := False\<rparr>
                 else s\<lparr>user := get_prop parsed ''user'', token := get_prop parsed ''token'',
                        isLoading := False\<rparr>))"

definition logout :: "auth_state \<Rightarrow> auth_state" where
  "logout s =
     s\<lparr>user := JNull, token := JNull,
       localStorage := (localStorage s)(AUTH_STORAGE_KEY := None)\<rparr>"

definition login :: "platform \<Rightarrow> int \<Rightarrow> AuthResponse \<Rightarrow> auth_state \<Rightarrow> auth_state" where
  "login P now response s =
     (let stored = JObj [(''user'', response_user response),
                         (''token'', response_token response),
                         (''timestamp'', JNum now)]
      in s\<lparr>localStorage := (localStorage s)(AUTH_STORAGE_KEY \<mapsto> JSON_stringify P stored),
           user := response_user response,
           token := response_token response\<rparr>)"

definition isAdmin :: "auth_state \<Rightarrow> bool" where
  "isAdmin s = (opt_prop (user s) ''user_type'' = JStr ''ADMIN'')"

definition isAuthenticated :: "auth_state \<Rightarrow> bool" where
  "isAuthenticated s = (truthy (user s) \<and> truthy (token s))"

section \<open>Root layout and dashboard page\<close>

text \<open>
  What a component renders, as the list of the parts the claims distinguish; \<open>'c\<close> is the
  routed page passed as \<open>children\<close>. The header holds the user's name as it is rendered
  and the initial shown in the avatar.
\<close>

datatype 'c element =
    LoadingText string
  | LockIcon
  | Heading string
  | Paragraph string
  | Button string
  | LoginDialogEl bool
  | Sidebar "string list"
  | Header jsval jsval
  | Children 'c

datatype render_error = TypeError

definition sidebarItems :: "string list" where
  "sidebarItems = [''Dashboard'', ''Users'', ''Flats'', ''Assets'']"

text \<open>
  The avatar's \<open>user?.full_name?.charAt(0).toUpperCase()\<close>: \<open>undefined\<close> for a name that
  is \<open>null\<close> or \<open>undefined\<close>, the upper-cased first code unit of a string, and a TypeError
  for any other value, which has no \<open>charAt\<close> to call.
\<close>

definition avatar_initial :: "platform \<Rightarrow> jsval \<Rightarrow> render_error + jsval" where
  "avatar_initial P name =
     (if nullish name then Inr JUndefined
      else (case name of
              JStr n \<Rightarrow> Inr (JStr (String_toUpperCase P (take 1 n)))
            | _ \<Rightarrow> Inl TypeError))"

text \<open>
  The layout's content; an error thrown while rendering is \<open>Inl\<close>: nothing of the layout
  is rendered then.
\<close>

definition DashboardLayoutContent ::
  "platform \<Rightarrow> bool \<Rightarrow> bool \<Rightarrow> auth_state \<Rightarrow> 'c \<Rightarrow> render_error + 'c element list" where
  "DashboardLayoutContent P mounted loginDialogOpen s children =
     (if \<not> mounted \<or> isLoading s then Inr [LoadingText ''Loading...'']
      else if \<not> isAuthenticated s \<or> \<not> isAdmin s then
        Inr [LockIcon,
             Heading ''Restricted Access'',
             Paragraph ''Only administrators can access this dashboard.'',
             Button ''Login to Continue'',
             LoginDialogEl loginDialogOpen]
      else
        (case avatar_initial P (opt_prop (user s) ''full_name'') of
           Inl e \<Rightarrow> Inl e
         | Inr initial \<Rightarrow>
             Inr [Sidebar sidebarItems,
                  Button ''Logout'',
                  Header (opt_prop (user s) ''full_name'') initial,
                  Children children,
                  LoginDialogEl loginDialogOpen]))"

text \<open>\<open>DashboardPage\<close> (\<open>src/unnamed/part_000\<close>); \<open>None\<close> is \<open>return null\<close>.\<close>

definition DashboardPage :: "bool \<Rightarrow> auth_state \<Rightarrow> 'c element list option" where
  "DashboardPage mounted s =
     (if \<not> mounted \<or> isLoading s then Some [LoadingText ''Loading...'']
      else if \<not> isAuthenticated s \<or> \<not> isAdmin s then None
      else Some [Heading ''LancorC Admin Overview'',
                 Paragraph ''Welcome to your apartment management portal.'',
                 Paragraph ''Manage residents and staff''])"

section \<open>Requests and responses\<close>

record request =
  req_method :: string
  url :: string
  headers :: "(string \<times> string) list"
  body :: "jsval option"

text \<open>
  \<open>body\<close> is the value handed to \<open>JSON.stringify\<close>. A response body either fails to
  parse (\<open>res.json()\<close> rejects with the given message) or is a JSON value; \<open>Rejected\<close>
  is a \<open>fetch\<close> that rejects.
\<close>

datatype response_body = NotJson string | Json jsval

datatype http_response = Rejected string | Response bool response_body

text \<open>The message of the TypeError raised by reading property \<open>k\<close> of \<open>null\<close> (V8's wording).\<close>

definition null_read_message :: "string \<Rightarrow> string" where
  "null_read_message k =
     ''Cannot read properties of null (reading '' @ [CHR 0x27] @ k @ [CHR 0x27] @ '')''"

section \<open>Strings\<close>

text \<open>
  \<open>trim\<close> on the strings of the dialog: it removes ECMAScript's white space and line
  terminators, which among the code units below 256 are these seven. \<open>\D\<close> is every
  code unit but the ten digits.
\<close>

definition is_space :: "char \<Rightarrow> bool" where
  "is_space c =
     (c \<in> set [CHR 0x09, CHR 0x0A, CHR 0x0B, CHR 0x0C, CHR 0x0D, CHR '' '', CHR 0xA0])"

definition js_trim :: "string \<Rightarrow> string" where
  "js_trim s = rev (dropWhile is_space (rev (dropWhile is_space s)))"

definition is_digit :: "char \<Rightarrow> bool" where
  "is_digit c = (c \<in> set ''0123456789'')"


section \<open>LoginDialog\<close>

definition AUTH_API_BASE :: string where
  "AUTH_API_BASE = ''http://localhost:8080/auth''"

definition MAX_ATTEMPTS :: int where
  "MAX_ATTEMPTS = 3"

definition OTP_EXPIRY_MINUTES :: int where
  "OTP_EXPIRY_MINUTES = 10"

datatype Step = email_step | otp_step

text \<open>
  The dialog's state cells. \<open>email_input\<close> and \<open>dialog_isLoading\<close> are the source's
  \<open>email\<close> and \<open>isLoading\<close>; \<open>timer\<close> says whether the interval held by \<open>timerRef\<close> is
  running.
\<close>

record LoginDialog_state =
  step :: Step
  email_input :: string
  otp :: string
  dialog_isLoading :: bool
  error :: string
  success :: string
  attempts :: int
  otpSentTime :: "int option"
  timeLeft :: int
  timer :: bool

definition initial_dialog :: LoginDialog_state where
  "initial_dialog =
     \<lparr>step = email_step, email_input = [], otp = [], dialog_isLoading = False, error = [],
      success = [], attempts = 0, otpSentTime = None,
      timeLeft = OTP_EXPIRY_MINUTES * 60, timer = False\<rparr>"

text \<open>
  The effect on \<open>[step, otpSentTime]\<close>: when either changes, the old interval is cleared and
  a new one is started if the step is the OTP step and \<open>otpSentTime\<close> is truthy.
\<close>

definition timer_effect :: "LoginDialog_state \<Rightarrow> LoginDialog_state" where
  "timer_effect s =
     s\<lparr>timer := (step s = otp_step \<and> (case otpSentTime s of None \<Rightarrow> False | Some t \<Rightarrow> t \<noteq> 0))\<rparr>"

text \<open>One firing of the interval at time \<open>now\<close> (epoch milliseconds).\<close>

definition tick :: "int \<Rightarrow> LoginDialog_state \<Rightarrow> LoginDialog_state" where
  "tick now s =
     (if \<not> timer s then s
      else
        (case otpSentTime s of
           None \<Rightarrow> s
         | Some sent \<Rightarrow>
             (let elapsed = (now - sent) div 1000;
                  remaining = OTP_EXPIRY_MINUTES * 60 - elapsed
              in (if remaining \<le> 0
                  then s\<lparr>error := ''OTP has expired. Please request a new one.'',
                         otp := [], timer := False\<rparr>
                  else s)\<lparr>timeLeft := remaining\<rparr>)))"


text \<open>The OTP input's \<open>onChange\<close>: \<open>value.replace(/\D/g, "").slice(0, 6)\<close>.\<close>

definition setOtp_input :: "string \<Rightarrow> LoginDialog_state \<Rightarrow> LoginDialog_state" where
  "setOtp_input v s = s\<lparr>otp := take 6 (filter is_digit v)\<rparr>"

definition handleSendOtp :: "LoginDialog_state \<Rightarrow> LoginDialog_state \<times> request option" where
  "handleSendOtp s =
     (if js_trim (email_input s) = [] then
        (s\<lparr>error := ''Please enter your email address''\<rparr>, None)
      else
        (s\<lparr>error := [], success := [], dialog_isLoading := True\<rparr>,
         Some \<lparr>req_method = ''POST'', url = AUTH_API_BASE @ ''/request-otp'',
               headers = [(''Content-Type'', ''application/json'')],
               body = Some (JObj [(''email'', JStr (email_input s))])\<rparr>))"

text \<open>The \<open>then\<close> and \<open>catch\<close> of the request-otp call, run at time \<open>now\<close>.\<close>

definition send_failed :: "string \<Rightarrow> LoginDialog_state \<Rightarrow> LoginDialog_state" where
  "send_failed m s =
     s\<lparr>error := (if m \<noteq> [] then m else ''Failed to send OTP''), dialog_isLoading := False\<rparr>"

definition onSendOtpResponse ::
  "int \<Rightarrow> http_response \<Rightarrow> LoginDialog_state \<Rightarrow> LoginDialog_state" where
  "onSendOtpResponse now res s =
     (case res of
        Rejected m \<Rightarrow> send_failed m s
      | Response ok b \<Rightarrow>
          if \<not> ok then
            (case b of
               NotJson m \<Rightarrow> send_failed m s
             | Json data \<Rightarrow>
                 if nullish data then send_failed (null_read_message ''message'') s
                 else send_failed
                        (js_String (js_or (get_prop data ''message'') (JStr ''Failed to send OTP'')))
                        s)
          else
            timer_effect
              (s\<lparr>success := ''OTP sent to your email successfully!'', step := otp_step,
                 otpSentTime := Some now, attempts := 0, dialog_isLoading := False\<rparr>))"

definition handleVerifyOtp :: "LoginDialog_state \<Rightarrow> LoginDialog_state \<times> request option" where
  "handleVerifyOtp s =
     (if js_trim (otp s) = [] \<or> length (otp s) \<noteq> 6 then
        (s\<lparr>error := ''Please enter a valid 6-digit OTP''\<rparr>, None)
      else if attempts s \<ge> MAX_ATTEMPTS then
        (s\<lparr>error := ''Maximum attempts exceeded. Please request a new OTP.''\<rparr>, None)
      else
        (s\<lparr>error := [], dialog_isLoading := True\<rparr>,
         Some \<lparr>req_method = ''POST'', url = AUTH_API_BASE @ ''/verify-otp'',
               headers = [(''Content-Type'', ''application/json'')],
               body = Some (JObj [(''email'', JStr (email_input s)), (''otp'', JStr (otp s))])\<rparr>))"

text \<open>The Verify button's \<open>disabled\<close> attribute, and a click on it.\<close>

definition verify_disabled :: "LoginDialog_state \<Rightarrow> bool" where
  "verify_disabled s = (dialog_isLoading s \<or> length (otp s) \<noteq> 6 \<or> attempts s \<ge> MAX_ATTEMPTS)"

definition verify_click :: "LoginDialog_state \<Rightarrow> LoginDialog_state \<times> request option" where
  "verify_click s = (if verify_disabled s then (s, None) else handleVerifyOtp s)"


text \<open>The \<open>AuthResponse\<close> built on success; \<open>em\<close> is the e-mail address entered.\<close>

definition built_user :: "jsval \<Rightarrow> string \<Rightarrow> jsval" where
  "built_user data em =
     JObj
       [(''user_id'',
           js_or (js_or (js_or (get_prop data ''userId'') (get_prop data ''id''))
                    (get_prop data ''user_id'')) (JStr [])),
        (''society_id'',
           js_or (js_or (get_prop data ''societyId'') (get_prop data ''society_id'')) (JStr [])),
        (''full_name'',
           js_or (js_or (js_or (get_prop data ''name'') (get_prop data ''fullName''))
                    (get_prop data ''full_name''))
             (JStr (takeWhile (\<lambda>c. c \<noteq> CHR ''@'') em))),
        (''email'', js_or (get_prop data ''email'') (JStr em)),
        (''phone'', js_or (get_prop data ''phone'') (JStr [])),
        (''user_type'',
           js_or (js_or (js_or (get_prop data ''userType'') (get_prop data ''user_type''))
                    (get_prop data ''role'')) (JStr ''ADMIN'')),
        (''is_active'',
           js_coalesce (js_coalesce (get_prop data ''isActive'') (get_prop data ''is_active''))
             (JBool True))]"

definition build_authResponse :: "jsval \<Rightarrow> string \<Rightarrow> AuthResponse" where
  "build_authResponse data em =
     \<lparr>response_token =
        js_or (js_or (js_or (js_or (get_prop data ''token'') (get_prop data ''jwt''))
                        (get_prop data ''accessToken''))
                 (opt_prop (get_prop data ''data'') ''token''))
          (JStr []),
      response_user =
        js_or (js_or (js_or (js_or (get_prop data ''user'') (get_prop data ''userDto''))
                        (get_prop data ''profile''))
                 (opt_prop (get_prop data ''data'') ''user''))
          (built_user data em)\<rparr>"





section \<open>Users page\<close>

definition API_BASE :: string where
  "API_BASE = ''http://localhost:8080/api/admin/users''"

text \<open>\<open>getHeaders\<close> of the users page; an empty string read from storage is falsy.\<close>

definition getHeaders :: "storage \<Rightarrow> (string \<times> string) list" where
  "getHeaders ls =
     (let token =
            (case ls ''token'' of
               None \<Rightarrow> ls ''auth_token''
             | Some t \<Rightarrow> if t \<noteq> [] then Some t else ls ''auth_token'')
      in [(''Content-Type'', ''application/json'')] @
         (case token of
            None \<Rightarrow> []
          | Some t \<Rightarrow> if t \<noteq> [] then [(''Authorization'', ''Bearer '' @ t)] else []))"

definition fetchUsers :: "storage \<Rightarrow> jsval \<Rightarrow> request" where
  "fetchUsers ls societyId =
     \<lparr>req_method = ''GET'', url = API_BASE @ ''?societyId='' @ js_String societyId,
      headers = getHeaders ls, body = None\<rparr>"

definition createUser :: "storage \<Rightarrow> jsval \<Rightarrow> request" where
  "createUser ls data =
     \<lparr>req_method = ''POST'', url = API_BASE, headers = getHeaders ls, body = Some data\<rparr>"

definition updateUser :: "storage \<Rightarrow> string \<Rightarrow> jsval \<Rightarrow> request" where
  "updateUser ls uid data =
     \<lparr>req_method = ''PUT'', url = API_BASE @ ''/'' @ uid, headers = getHeaders ls,
      body = Some data\<rparr>"

definition toggleUserStatus :: "storage \<Rightarrow> string \<Rightarrow> bool \<Rightarrow> request" where
  "toggleUserStatus ls uid active =
     \<lparr>req_method = ''PATCH'',
      url = API_BASE @ ''/'' @ uid @ ''/status?active='' @ (if active then ''true'' else ''false''),
      headers = getHeaders ls, body = None\<rparr>"

text \<open>
  The users query: \<open>enabled\<close>, and the request its \<open>queryFn\<close> issues when enabled.
\<close>

definition users_query_enabled :: "auth_state \<Rightarrow> bool" where
  "users_query_enabled s = (truthy (opt_prop (user s) ''society_id'') \<and> isAuthenticated s)"

definition users_query :: "auth_state \<Rightarrow> request option" where
  "users_query s =
     (if users_query_enabled s
      then Some (fetchUsers (localStorage s) (js_or (opt_prop (user s) ''society_id'') (JStr [])))
      else None)"

text \<open>
  \<open>data: users = []\<close>: the list the page works on. \<open>server\<close> gives the list a request is
  answered with, \<open>None\<close> for a failed request.
\<close>

definition page_users :: "auth_state \<Rightarrow> (request \<Rightarrow> 'u list option) \<Rightarrow> 'u list" where
  "page_users s server =
     (case users_query s of
        None \<Rightarrow> []
      | Some r \<Rightarrow> (case server r of None \<Rightarrow> [] | Some us \<Rightarrow> us))"

text \<open>
  A user row at its declared type. The name and the e-mail address, which the filter
  lower-cases and searches, are lists of code units of any type \<open>'c\<close>. The live page also
  reads \<open>fullName\<close>; every read of \<open>full_name\<close>, \<open>fullName\<close> and \<open>email\<close> there has the
  form \<open>x || \<dots>\<close>, so a missing field and the empty string behave alike and a missing
  field is the empty string here.
\<close>

record 'c User =
  society_id :: string
  user_id :: string
  full_name :: "'c list"
  email :: "'c list"
  phone :: string
  user_type :: string
  is_active :: bool

record 'c ApiUser = "'c User" +
  fullName :: "'c list"


text \<open>The Delete button of a row of the live page and its click.\<close>

definition deleteMutation :: "storage \<Rightarrow> string \<Rightarrow> request" where
  "deleteMutation ls uid = toggleUserStatus ls uid False"

definition delete_disabled :: "'c ApiUser \<Rightarrow> bool" where
  "delete_disabled u = (\<not> is_active u)"

definition delete_click :: "storage \<Rightarrow> 'c ApiUser \<Rightarrow> request option" where
  "delete_click ls u = (if delete_disabled u then None else Some (deleteMutation ls (user_id u)))"

subsection \<open>The mock-backed users page (\<open>src/unnamed/part_002\<close>)\<close>


text \<open>\<open>findIndex\<close>; \<open>None\<close> is \<open>-1\<close>.\<close>

fun findIndex :: "('a \<Rightarrow> bool) \<Rightarrow> 'a list \<Rightarrow> nat option" where
  "findIndex P [] = None"
| "findIndex P (x # xs) =
     (if P x then Some 0 else (case findIndex P xs of None \<Rightarrow> None | Some i \<Rightarrow> Some (Suc i)))"

text \<open>
  \<open>softDeleteUser\<close> on the module's \<open>mockUsers\<close>: the new list and the record returned, or
  the message of the error thrown.
\<close>

definition softDeleteUser ::
  "string \<Rightarrow> 'c User list \<Rightarrow> string + ('c User list \<times> 'c User)" where
  "softDeleteUser uid mockUsers =
     (case findIndex (\<lambda>u. user_id u = uid) mockUsers of
        None \<Rightarrow> Inl ''User not found''
      | Some index \<Rightarrow>
          (let mockUsers' = mockUsers[index := (mockUsers ! index)\<lparr>is_active := False\<rparr>]
           in Inr (mockUsers', mockUsers' ! index)))"

definition delete_disabled_mock :: "bool \<Rightarrow> 'c User \<Rightarrow> bool" where
  "delete_disabled_mock isPending u = (isPending \<or> \<not> is_active u)"

section \<open>Notions used in the statements\<close>

text \<open>The parts of the dashboard shell, and the restricted-access screen.\<close>

fun shell_part :: "'c element \<Rightarrow> bool" where
  "shell_part (Sidebar xs) = True"
| "shell_part (Header n i) = True"
| "shell_part (Children c) = True"
| "shell_part e = False"

definition restricted_screen :: "bool \<Rightarrow> 'c element list" where
  "restricted_screen loginDialogOpen =
     [LockIcon, Heading ''Restricted Access'',
      Paragraph ''Only administrators can access this dashboard.'',
      Button ''Login to Continue'', LoginDialogEl loginDialogOpen]"

text \<open>The declared type of the user's name: a string, or missing.\<close>

definition name_typed :: "auth_state \<Rightarrow> bool" where
  "name_typed s =
     (nullish (opt_prop (user s) ''full_name'')
      \<or> (\<exists>n. opt_prop (user s) ''full_name'' = JStr n))"

subsection \<open>Stand-ins for the platform in the runs below\<close>


definition ascii_toUpperCase :: "string \<Rightarrow> string" where
  "ascii_toUpperCase s =
     map (\<lambda>c. case map_of (zip ''abcdefghijklmnopqrstuvwxyz'' ''ABCDEFGHIJKLMNOPQRSTUVWXYZ'') c of
                None \<Rightarrow> c
              | Some l \<Rightarrow> l) s"

text \<open>
  The text \<open>JSON.stringify\<close> gives for a value: properties that are \<open>undefined\<close> are left
  out, array elements that are \<open>undefined\<close> become \<open>null\<close>, and in a string the quote,
  the backslash and the control characters are escaped.
\<close>

definition JSON_escapes :: "(char \<times> string) list" where
  "JSON_escapes =
     [(CHR 0x22, [CHR 0x5C, CHR 0x22]), (CHR 0x5C, [CHR 0x5C, CHR 0x5C]),
      (CHR 0x08, CHR 0x5C # ''b''), (CHR 0x09, CHR 0x5C # ''t''), (CHR 0x0A, CHR 0x5C # ''n''),
      (CHR 0x0C, CHR 0x5C # ''f''), (CHR 0x0D, CHR 0x5C # ''r''),
      (CHR 0x00, CHR 0x5C # ''u0000''), (CHR 0x01, CHR 0x5C # ''u0001''),
      (CHR 0x02, CHR 0x5C # ''u0002''), (CHR 0x03, CHR 0x5C # ''u0003''),
      (CHR 0x04, CHR 0x5C # ''u0004''), (CHR 0x05, CHR 0x5C # ''u0005''),
      (CHR 0x06, CHR 0x5C # ''u0006''), (CHR 0x07, CHR 0x5C # ''u0007''),
      (CHR 0x0B, CHR 0x5C # ''u000b''), (CHR 0x0E, CHR 0x5C # ''u000e''),
      (CHR 0x0F, CHR 0x5C # ''u000f''), (CHR 0x10, CHR 0x5C # ''u0010''),
      (CHR 0x11, CHR 0x5C # ''u0011''), (CHR 0x12, CHR 0x5C # ''u0012''),
      (CHR 0x13, CHR 0x5C # ''u0013''), (CHR 0x14, CHR 0x5C # ''u0014''),
      (CHR 0x15, CHR 0x5C # ''u0015''), (CHR 0x16, CHR 0x5C # ''u0016''),
      (CHR 0x17, CHR 0x5C # ''u0017''), (CHR 0x18, CHR 0x5C # ''u0018''),
      (CHR 0x19, CHR 0x5C # ''u0019''), (CHR 0x1A, CHR 0x5C # ''u001a''),
      (CHR 0x1B, CHR 0x5C # ''u001b''), (CHR 0x1C, CHR 0x5C # ''u001c''),
      (CHR 0x1D, CHR 0x5C # ''u001d''), (CHR 0x1E, CHR 0x5C # ''u001e''),
      (CHR 0x1F, CHR 0x5C # ''u001f'')]"

definition JSON_quote :: "string \<Rightarrow> string" where
  "JSON_quote s =
     CHR 0x22 # concat (map (\<lambda>c. case map_of JSON_escapes c of None \<Rightarrow> [c] | Some e \<Rightarrow> e) s)
       @ [CHR 0x22]"

fun JSON_text :: "jsval \<Rightarrow> string"
  and JSON_elements :: "jsval list \<Rightarrow> string list"
  and JSON_members :: "(string \<times> jsval) list \<Rightarrow> string list" where
  "JSON_text JUndefined = []"
| "JSON_text JNull = ''null''"
| "JSON_text (JBool b) = (if b then ''true'' else ''false'')"
| "JSON_text (JNum n) = show_int n"
| "JSON_text (JStr s) = JSON_quote s"
| "JSON_text (JArr xs) = ''['' @ join_comma (JSON_elements xs) @ '']''"
| "JSON_text (JObj kvs) = ''{'' @ join_comma (JSON_members kvs) @ ''}''"
| "JSON_elements [] = []"
| "JSON_elements (x # xs) = (if x = JUndefined then ''null'' else JSON_text x) # JSON_elements xs"
| "JSON_members [] = []"
| "JSON_members ((k, v) # kvs) =
     (if v = JUndefined then JSON_members kvs
      else (JSON_quote k @ '':'' @ JSON_text v) # JSON_members kvs)"

text \<open>
  Two stored sessions as \<open>login\<close> builds them, the second with its \<open>timestamp\<close> taken
  out, and their texts.
\<close>

definition demo_stored :: jsval where
  "demo_stored =
     JObj [(''user'', JObj [(''user_type'', JStr ''ADMIN'')]), (''token'', JStr ''secret''),
           (''timestamp'', JNum 1000)]"

definition demo_blob :: string where
  \<open>demo_blob = ''{"user":{"user_type":"ADMIN"},"token":"secret","timestamp":1000}''\<close>

definition undated_stored :: jsval where
  "undated_stored =
     JObj [(''user'', JObj [(''user_type'', JStr ''ADMIN'')]), (''token'', JStr ''secret'')]"

definition undated_blob :: string where
  \<open>undated_blob = ''{"user":{"user_type":"ADMIN"},"token":"secret"}''\<close>

text \<open>
  A parser that reads these two texts back and rejects every other text. Of the texts
  that occur in the runs below, these two are the ones \<open>JSON.parse\<close> accepts; the third
  is the empty string.
\<close>

definition demo_parse :: "string \<Rightarrow> jsval option" where
  "demo_parse text =
     (if text = demo_blob then Some demo_stored
      else if text = undated_blob then Some undated_stored
      else None)"

text \<open>The platform of the runs; no run converts a string to a number.\<close>

definition demo_platform :: platform where
  "demo_platform =
     \<lparr>JSON_parse = demo_parse, JSON_stringify = JSON_text, StringToNumber = (\<lambda>text. None),
      String_toUpperCase = ascii_toUpperCase\<rparr>"

subsection \<open>Runs of the auth provider\<close>

text \<open>
  The auth state after a verify-otp response with the empty object as body has been logged
  in on a fresh browser: the user is built from defaults and the token is the empty string.
\<close>

definition empty_body_login :: auth_state where
  "empty_body_login =
     login demo_platform 0 (build_authResponse (JObj []) ''admin@example.com'')
       (initial_auth Map.empty)"

text \<open>
  The same with a body that carries a token and a society, and with a body that carries a
  token and the number 5 as \<open>name\<close>.
\<close>

definition admin_session :: auth_state where
  "admin_session =
     login demo_platform 0
       (build_authResponse
          (JObj [(''token'', JStr ''secret''), (''societyId'', JStr ''soc-1'')]) ''admin@example.com'')
       (initial_auth Map.empty)"

definition numeric_name_session :: auth_state where
  "numeric_name_session =
     login demo_platform 0
       (build_authResponse (JObj [(''token'', JStr ''secret''), (''name'', JNum 5)])
          ''admin@example.com'')
       (initial_auth Map.empty)"

text \<open>The operations of the auth provider, and a run of them in order.\<close>

datatype auth_op = Mount int | Login int AuthResponse | Logout

fun apply_auth_op :: "platform \<Rightarrow> auth_op \<Rightarrow> auth_state \<Rightarrow> auth_state" where
  "apply_auth_op P (Mount now) s = mount P now s"
| "apply_auth_op P (Login now response) s = login P now response s"
| "apply_auth_op P Logout s = logout s"

fun run_auth_ops :: "platform \<Rightarrow> auth_op list \<Rightarrow> auth_state \<Rightarrow> auth_state" where
  "run_auth_ops P [] s = s"
| "run_auth_ops P (x # xs) s = run_auth_ops P xs (apply_auth_op P x s)"

text \<open>The requests the users page builds: list, create, update and status toggle.\<close>

definition users_requests :: "storage \<Rightarrow> jsval \<Rightarrow> string \<Rightarrow> jsval \<Rightarrow> bool \<Rightarrow> request list" where
  "users_requests ls societyId uid data active =
     [fetchUsers ls societyId, createUser ls data, updateUser ls uid data,
      toggleUserStatus ls uid active]"

text \<open>A fresh browser: mount, then a login with a token.\<close>

definition demo_login_ops :: "auth_op list" where
  "demo_login_ops =
     [Mount 1000,
      Login 2000 (build_authResponse (JObj [(''token'', JStr ''secret'')]) ''admin@example.com'')]"

text \<open>The text this login stores.\<close>

definition demo_login_blob :: string where
  \<open>demo_login_blob =
     ''{"user":{"user_id":"","society_id":"","full_name":"admin","email":"admin@example.com","phone":"","user_type":"ADMIN","is_active":true},"token":"secret","timestamp":2000}''\<close>

subsection \<open>Runs of the login dialog\<close>

text \<open>
  The dialog after an address has been entered and the request-otp call, answered at time
  1000, has succeeded.
\<close>

definition otp_sent :: LoginDialog_state where
  "otp_sent =
     onSendOtpResponse 1000 (Response True (Json (JObj [])))
       (fst (handleSendOtp (initial_dialog\<lparr>email_input := ''admin@example.com''\<rparr>)))"







subsection \<open>User rows and the words of the filter\<close>

text \<open>The initial \<open>mockUsers\<close> of the mock API layer.\<close>

definition mockUsers_initial :: "char User list" where
  "mockUsers_initial =
     [\<lparr>society_id = ''11111111-1111-1111-1111-111111111111'',
       user_id = ''aaaaaaaa-aaaa-aaaa-aaaa-aaaaaaaaaaaa'',
       full_name = ''John Admin'', email = ''admin@example.com'',
       phone = ''+91 98765 43210'', user_type = ''ADMIN'', is_active = True\<rparr>,
      \<lparr>society_id = ''11111111-1111-1111-1111-111111111111'',
       user_id = ''bbbbbbbb-bbbb-bbbb-bbbb-bbbbbbbbbbbb'',
       full_name = ''Meena Owner'', email = ''meena.owner@example.com'',
       phone = ''+91 90000 00001'', user_type = ''OWNER'', is_active = True\<rparr>]"








section \<open>The access gate of the layout\<close>

lemma restricted_screen_no_shell:
  "\<not> list_ex shell_part (restricted_screen dlg)"
  by (simp add: restricted_screen_def)

lemma layout_gate_closed:
  assumes "mounted" and "\<not> isLoading s" and "\<not> (isAuthenticated s \<and> isAdmin s)"
  shows "DashboardLayoutContent P mounted dlg s ch = Inr (restricted_screen dlg)"
    and "DashboardPage mounted s = None"
  using assms by (auto simp: DashboardLayoutContent_def DashboardPage_def restricted_screen_def)

lemma avatar_initial_typed:
  "nullish name \<or> (\<exists>n. name = JStr n) \<Longrightarrow> \<exists>initial. avatar_initial P name = Inr initial"
  by (auto simp: avatar_initial_def)

lemma avatar_initial_untyped:
  "\<not> (nullish name \<or> (\<exists>n. name = JStr n)) \<Longrightarrow> avatar_initial P name = Inl TypeError"
  by (cases name) (auto simp: avatar_initial_def)

lemma layout_gate_open:
  assumes "mounted" and "\<not> isLoading s" and "isAuthenticated s" and "isAdmin s"
  shows "name_typed s \<Longrightarrow>
           \<exists>initial. DashboardLayoutContent P mounted dlg s ch =
             Inr [Sidebar sidebarItems, Button ''Logout'',
                  Header (opt_prop (user s) ''full_name'') initial, Children ch,
                  LoginDialogEl dlg]"
    and "\<not> name_typed s \<Longrightarrow> DashboardLayoutContent P mounted dlg s ch = Inl TypeError"
proof -
  assume "name_typed s"
  then obtain initial where "avatar_initial P (opt_prop (user s) ''full_name'') = Inr initial"
    unfolding name_typed_def using avatar_initial_typed by blast
  with assms show "\<exists>initial. DashboardLayoutContent P mounted dlg s ch =
             Inr [Sidebar sidebarItems, Button ''Logout'',
                  Header (opt_prop (user s) ''full_name'') initial, Children ch,
                  LoginDialogEl dlg]"
    by (simp add: DashboardLayoutContent_def)
next
  assume "\<not> name_typed s"
  then have "avatar_initial P (opt_prop (user s) ''full_name'') = Inl TypeError"
    unfolding name_typed_def by (rule avatar_initial_untyped)
  with assms show "DashboardLayoutContent P mounted dlg s ch = Inl TypeError"
    by (simp add: DashboardLayoutContent_def)
qed

lemma layout_rendered_parts:
  assumes "mounted" and "\<not> isLoading s"
    and "DashboardLayoutContent P mounted dlg s ch = Inr els"
  shows "list_ex shell_part els \<longleftrightarrow> isAuthenticated s \<and> isAdmin s"
    and "Children ch \<in> set els \<longleftrightarrow> isAuthenticated s \<and> isAdmin s"
    and "Sidebar sidebarItems \<in> set els \<longleftrightarrow> isAuthenticated s \<and> isAdmin s"
  using assms
  by (auto simp: DashboardLayoutContent_def split: if_splits sum.splits)

text \<open>
  C1, as the claim states it, fails: the shell is not rendered whenever both flags hold.
  The header calls \<open>charAt\<close> on the user's \<open>full_name\<close>; the login dialog takes the name
  from the response body as it is, and for the body \<open>{token: "secret", name: 5}\<close> both
  flags hold while rendering the layout throws.
\<close>

theorem C1_counterexample:
  "isAuthenticated (numeric_name_session\<lparr>isLoading := False\<rparr>)
   \<and> isAdmin (numeric_name_session\<lparr>isLoading := False\<rparr>)
   \<and> DashboardLayoutContent demo_platform True False
         (numeric_name_session\<lparr>isLoading := False\<rparr>) ''users''
       = Inl TypeError"
  by (simp add: numeric_name_session_def login_def build_authResponse_def built_user_def
      initial_auth_def isAuthenticated_def isAdmin_def js_or_def nullish_def opt_prop_def
      DashboardLayoutContent_def avatar_initial_def)

text \<open>
  C1, amended. Once the layout is mounted and the auth context has finished loading: if
  \<open>isAuthenticated && isAdmin\<close> does not hold, the layout renders exactly the
  restricted-access screen (lock icon, the "Login to Continue" button, the login dialog),
  which has no part of the dashboard shell and not the routed children, and the dashboard
  page itself renders nothing. If both hold and the user's \<open>full_name\<close> is a string or
  missing, the layout renders the shell (sidebar, header) around the children; if both hold
  and the \<open>full_name\<close> is of another type, rendering throws. So whenever the layout
  renders, it renders shell and children exactly when both flags hold.
\<close>

theorem C1_layout_gate:
  assumes "mounted" and "\<not> isLoading s"
  shows "(\<not> (isAuthenticated s \<and> isAdmin s) \<longrightarrow>
            DashboardLayoutContent P mounted dlg s ch = Inr (restricted_screen dlg)
            \<and> \<not> list_ex shell_part (restricted_screen dlg :: 'c element list)
            \<and> (DashboardPage mounted s :: 'c element list option) = None)
         \<and> (isAuthenticated s \<and> isAdmin s \<and> name_typed s \<longrightarrow>
              (\<exists>initial. DashboardLayoutContent P mounted dlg s ch =
                 Inr [Sidebar sidebarItems, Button ''Logout'',
                      Header (opt_prop (user s) ''full_name'') initial, Children ch,
                      LoginDialogEl dlg]))
         \<and> (isAuthenticated s \<and> isAdmin s \<and> \<not> name_typed s \<longrightarrow>
              DashboardLayoutContent P mounted dlg s ch = Inl TypeError)
         \<and> (\<forall>els. DashboardLayoutContent P mounted dlg s ch = Inr els \<longrightarrow>
              (list_ex shell_part els \<longleftrightarrow> isAuthenticated s \<and> isAdmin s)
              \<and> (Children ch \<in> set els \<longleftrightarrow> isAuthenticated s \<and> isAdmin s)
              \<and> (Sidebar sidebarItems \<in> set els \<longleftrightarrow> isAuthenticated s \<and> isAdmin s))"
proof -
  have closed: "DashboardLayoutContent P mounted dlg s ch = Inr (restricted_screen dlg)
            \<and> \<not> list_ex shell_part (restricted_screen dlg :: 'c element list)
            \<and> (DashboardPage mounted s :: 'c element list option) = None"
    if "\<not> (isAuthenticated s \<and> isAdmin s)"
    by (simp add: layout_gate_closed [OF assms that] restricted_screen_no_shell)
  have typed: "\<exists>initial. DashboardLayoutContent P mounted dlg s ch =
                 Inr [Sidebar sidebarItems, Button ''Logout'',
                      Header (opt_prop (user s) ''full_name'') initial, Children ch,
                      LoginDialogEl dlg]"
    if "isAuthenticated s \<and> isAdmin s \<and> name_typed s"
    using that by (intro layout_gate_open(1) [OF assms]) simp_all
  have untyped: "DashboardLayoutContent P mounted dlg s ch = Inl TypeError"
    if "isAuthenticated s \<and> isAdmin s \<and> \<not> name_typed s"
    using that by (intro layout_gate_open(2) [OF assms]) simp_all
  have parts: "(list_ex shell_part els \<longleftrightarrow> isAuthenticated s \<and> isAdmin s)
              \<and> (Children ch \<in> set els \<longleftrightarrow> isAuthenticated s \<and> isAdmin s)
              \<and> (Sidebar sidebarItems \<in> set els \<longleftrightarrow> isAuthenticated s \<and> isAdmin s)"
    if "DashboardLayoutContent P mounted dlg s ch = Inr els" for els
    by (simp add: layout_rendered_parts [OF assms that])
  from closed typed untyped parts show ?thesis by blast
qed

theorem C1_layout_gate_witness:
  "DashboardLayoutContent demo_platform True False (empty_body_login\<lparr>isLoading := False\<rparr>) ''users''
       = Inr (restricted_screen False)
   \<and> DashboardLayoutContent demo_platform True False (admin_session\<lparr>isLoading := False\<rparr>) ''users''
       = Inr [Sidebar sidebarItems, Button ''Logout'', Header (JStr ''admin'') (JStr ''A''),
              Children ''users'', LoginDialogEl False]"
proof -
  let ?e = "empty_body_login\<lparr>isLoading := False\<rparr>"
  let ?a = "admin_session\<lparr>isLoading := False\<rparr>"
  have loaded: "\<not> isLoading ?e" "\<not> isLoading ?a"
    by simp_all
  have unauth: "\<not> (isAuthenticated ?e \<and> isAdmin ?e)"
    by (simp add: empty_body_login_def login_def build_authResponse_def initial_auth_def
        isAuthenticated_def js_or_def opt_prop_def nullish_def)
  have auth: "isAuthenticated ?a" "isAdmin ?a" "name_typed ?a"
    by (simp_all add: admin_session_def login_def build_authResponse_def built_user_def
        initial_auth_def isAuthenticated_def isAdmin_def name_typed_def js_or_def opt_prop_def
        nullish_def)
  from C1_layout_gate [OF TrueI loaded(1), of demo_platform False "''users''"] unauth
  have 1: "DashboardLayoutContent demo_platform True False ?e ''users''
             = Inr (restricted_screen False)"
    by blast
  from C1_layout_gate [OF TrueI loaded(2), of demo_platform False "''users''"] auth
  obtain initial where 2: "DashboardLayoutContent demo_platform True False ?a ''users'' =
      Inr [Sidebar sidebarItems, Button ''Logout'',
           Header (opt_prop (user ?a) ''full_name'') initial, Children ''users'',
           LoginDialogEl False]"
    by blast
  have 3: "DashboardLayoutContent demo_platform True False ?a ''users''
       = Inr [Sidebar sidebarItems, Button ''Logout'', Header (JStr ''admin'') (JStr ''A''),
              Children ''users'', LoginDialogEl False]"
    by (simp add: admin_session_def login_def build_authResponse_def built_user_def
        initial_auth_def isAuthenticated_def isAdmin_def js_or_def opt_prop_def nullish_def
        DashboardLayoutContent_def avatar_initial_def demo_platform_def ascii_toUpperCase_def)
  from 1 2 3 show ?thesis by simp
qed

section \<open>The derived flags of the auth context\<close>

lemma isAdmin_iff:
  "isAdmin s \<longleftrightarrow> \<not> nullish (user s) \<and> get_prop (user s) ''user_type'' = JStr ''ADMIN''"
  by (auto simp: isAdmin_def opt_prop_def)

lemma isAuthenticated_typed:
  assumes "user s = JNull \<or> (\<exists>kvs. user s = JObj kvs)"
    and "token s = JNull \<or> (\<exists>t. token s = JStr t)"
  shows "isAuthenticated s \<longleftrightarrow> user s \<noteq> JNull \<and> token s \<noteq> JNull \<and> token s \<noteq> JStr []"
  using assms by (auto simp: isAuthenticated_def)

lemma logout_clears:
  "\<not> isAdmin (logout s) \<and> \<not> isAuthenticated (logout s)
   \<and> user (logout s) = JNull \<and> token (logout s) = JNull
   \<and> localStorage (logout s) AUTH_STORAGE_KEY = None"
  by (simp add: logout_def isAdmin_def isAuthenticated_def opt_prop_def nullish_def)

text \<open>
  C7, as the claim states it, fails: \<open>isAuthenticated\<close> is \<open>!!user && !!token\<close>, and the
  empty string is a token that is not null and not truthy. The login dialog produces it
  when the verify-otp response carries no token.
\<close>

theorem C7_counterexample:
  "\<not> (isAuthenticated empty_body_login
        \<longleftrightarrow> \<not> nullish (user empty_body_login) \<and> \<not> nullish (token empty_body_login))"
  by (simp add: empty_body_login_def login_def build_authResponse_def built_user_def
      initial_auth_def isAuthenticated_def js_or_def nullish_def opt_prop_def)

text \<open>
  C7, amended. In every auth state \<open>isAdmin\<close> holds exactly when the user is not null and
  its \<open>user_type\<close> is \<open>"ADMIN"\<close>; with the user an object or null and the token a string
  or null, \<open>isAuthenticated\<close> holds exactly when the user is not null and the token is
  neither null nor the empty string; after \<open>logout\<close> user and token are null, the stored
  session is gone and both flags are false.
\<close>

theorem C7_auth_flags:
  "(isAdmin s \<longleftrightarrow> \<not> nullish (user s) \<and> get_prop (user s) ''user_type'' = JStr ''ADMIN'')
   \<and> ((user s = JNull \<or> (\<exists>kvs. user s = JObj kvs)) \<and> (token s = JNull \<or> (\<exists>t. token s = JStr t))
        \<longrightarrow> (isAuthenticated s \<longleftrightarrow> user s \<noteq> JNull \<and> token s \<noteq> JNull \<and> token s \<noteq> JStr []))
   \<and> \<not> isAdmin (logout s) \<and> \<not> isAuthenticated (logout s)
   \<and> user (logout s) = JNull \<and> token (logout s) = JNull
   \<and> localStorage (logout s) AUTH_STORAGE_KEY = None"
  using isAdmin_iff [of s] isAuthenticated_typed [of s] logout_clears [of s] by blast

theorem C7_auth_flags_witness:
  "isAdmin empty_body_login \<and> \<not> isAuthenticated empty_body_login
   \<and> \<not> isAdmin (logout empty_body_login)"
  using C7_auth_flags [of empty_body_login]
  by (simp add: empty_body_login_def login_def build_authResponse_def built_user_def
      initial_auth_def js_or_def nullish_def opt_prop_def)

section \<open>The Authorization header of the users requests\<close>

lemma mount_other_keys:
  "k \<noteq> AUTH_STORAGE_KEY \<Longrightarrow> localStorage (mount P now s) k = localStorage s k"
  by (simp add: mount_def split: option.splits)

lemma login_other_keys:
  "k \<noteq> AUTH_STORAGE_KEY \<Longrightarrow> localStorage (login P now r s) k = localStorage s k"
  by (simp add: login_def)

lemma logout_other_keys:
  "k \<noteq> AUTH_STORAGE_KEY \<Longrightarrow> localStorage (logout s) k = localStorage s k"
  by (simp add: logout_def)

lemma apply_auth_op_other_keys:
  "k \<noteq> AUTH_STORAGE_KEY \<Longrightarrow> localStorage (apply_auth_op P x s) k = localStorage s k"
  by (cases x) (simp_all add: mount_other_keys login_other_keys logout_other_keys)

lemma run_auth_ops_other_keys:
  "k \<noteq> AUTH_STORAGE_KEY \<Longrightarrow> localStorage (run_auth_ops P ops s) k = localStorage s k"
  by (induction ops arbitrary: s) (simp_all add: apply_auth_op_other_keys)

lemma getHeaders_no_token:
  assumes "ls ''token'' = None" and "ls ''auth_token'' = None"
  shows "getHeaders ls = [(''Content-Type'', ''application/json'')]"
  using assms by (simp add: getHeaders_def)

lemma login_stores_blob:
  "localStorage (login P now r s) AUTH_STORAGE_KEY
     = Some (JSON_stringify P
               (JObj [(''user'', response_user r), (''token'', response_token r),
                      (''timestamp'', JNum now)]))"
  by (simp add: login_def)

text \<open>
  C3. \<open>login\<close> stores the session, token included, as one value under
  \<open>lancorc_auth\<close>; \<open>getHeaders\<close> reads \<open>token\<close> and \<open>auth_token\<close>, which no operation of
  the auth provider writes. So in a browser where nothing else has set these two keys, after
  any run of mounts, logins and logouts every request of the users page (list, create,
  update, status toggle) carries no Authorization header.
\<close>

theorem C3_no_authorization_header:
  assumes "localStorage s ''token'' = None" and "localStorage s ''auth_token'' = None"
  shows "localStorage (login P now r s) AUTH_STORAGE_KEY
           = Some (JSON_stringify P
                     (JObj [(''user'', response_user r), (''token'', response_token r),
                            (''timestamp'', JNum now)]))
         \<and> getHeaders (localStorage (run_auth_ops P ops s))
             = [(''Content-Type'', ''application/json'')]
         \<and> (\<forall>q \<in> set (users_requests (localStorage (run_auth_ops P ops s))
                          societyId uid data active).
               map_of (headers q) ''Authorization'' = None)"
proof -
  let ?ls = "localStorage (run_auth_ops P ops s)"
  have "?ls ''token'' = None" and "?ls ''auth_token'' = None"
    using assms by (simp_all add: run_auth_ops_other_keys AUTH_STORAGE_KEY_def)
  then have h: "getHeaders ?ls = [(''Content-Type'', ''application/json'')]"
    by (rule getHeaders_no_token)
  then have "\<forall>q \<in> set (users_requests ?ls societyId uid data active).
               map_of (headers q) ''Authorization'' = None"
    by (simp add: users_requests_def fetchUsers_def createUser_def updateUser_def
        toggleUserStatus_def)
  with h login_stores_blob show ?thesis by blast
qed

theorem C3_no_authorization_header_witness:
  "token (run_auth_ops demo_platform demo_login_ops (initial_auth Map.empty)) = JStr ''secret''
   \<and> localStorage (run_auth_ops demo_platform demo_login_ops (initial_auth Map.empty))
         AUTH_STORAGE_KEY = Some demo_login_blob
   \<and> headers (fetchUsers (localStorage (run_auth_ops demo_platform demo_login_ops
                                  (initial_auth Map.empty))) (JStr ''s1''))
       = [(''Content-Type'', ''application/json'')]"
proof -
  let ?init = "initial_auth Map.empty"
  let ?s = "run_auth_ops demo_platform demo_login_ops ?init"
  have a: "localStorage ?init ''token'' = None" and b: "localStorage ?init ''auth_token'' = None"
    by (simp_all add: initial_auth_def)
  have c: "token ?s = JStr ''secret''"
    by (simp add: demo_login_ops_def initial_auth_def mount_def login_def
        build_authResponse_def js_or_def)
  have d: "localStorage ?s AUTH_STORAGE_KEY = Some demo_login_blob"
    by (simp add: demo_login_ops_def initial_auth_def mount_def login_def
        build_authResponse_def built_user_def js_or_def js_coalesce_def opt_prop_def
        nullish_def demo_platform_def show_int_def JSON_quote_def JSON_escapes_def
        demo_login_blob_def)
  from C3_no_authorization_header [OF a b, where P = demo_platform and ops = demo_login_ops]
  have "getHeaders (localStorage ?s) = [(''Content-Type'', ''application/json'')]"
    by blast
  with c d show ?thesis by (simp add: fetchUsers_def)
qed

section \<open>The users query\<close>

lemma users_query_Some_iff:
  "users_query s \<noteq> None \<longleftrightarrow> truthy (opt_prop (user s) ''society_id'') \<and> isAuthenticated s"
  by (simp add: users_query_def users_query_enabled_def)

lemma users_query_url:
  assumes "users_query s = Some r"
  shows "req_method r = ''GET''"
    and "url r = API_BASE @ ''?societyId='' @ js_String (get_prop (user s) ''society_id'')"
    and "headers r = getHeaders (localStorage s)"
    and "truthy (get_prop (user s) ''society_id'')"
proof -
  from assms have en: "users_query_enabled s"
    by (simp add: users_query_def split: if_splits)
  then have t: "truthy (opt_prop (user s) ''society_id'')"
    by (simp add: users_query_enabled_def)
  then have eq: "opt_prop (user s) ''society_id'' = get_prop (user s) ''society_id''"
    by (auto simp: opt_prop_def split: if_splits)
  from assms en have r: "r = fetchUsers (localStorage s) (js_or (opt_prop (user s) ''society_id'') (JStr []))"
    by (simp add: users_query_def)
  from t eq show "truthy (get_prop (user s) ''society_id'')" by simp
  from r t eq show "req_method r = ''GET''"
    and "url r = API_BASE @ ''?societyId='' @ js_String (get_prop (user s) ''society_id'')"
    and "headers r = getHeaders (localStorage s)"
    by (simp_all add: fetchUsers_def js_or_def)
qed

lemma users_query_absent:
  assumes "\<not> truthy (opt_prop (user s) ''society_id'')"
  shows "users_query s = None \<and> page_users s server = []"
  using assms by (simp add: users_query_def users_query_enabled_def page_users_def)

text \<open>
  C9. The users-list request is issued exactly when the logged-in user has a truthy
  (for a string: non-empty) \<open>society_id\<close> and \<open>isAuthenticated\<close> holds; it is a GET
  whose URL is the users endpoint followed by \<open>?societyId=\<close> and that \<open>society_id\<close>;
  when the \<open>society_id\<close> is absent or empty no request is issued and the page's list
  is empty.
\<close>

theorem C9_users_query:
  "(users_query s \<noteq> None \<longleftrightarrow> truthy (opt_prop (user s) ''society_id'') \<and> isAuthenticated s)
   \<and> (\<forall>r. users_query s = Some r \<longrightarrow>
          req_method r = ''GET''
          \<and> url r = API_BASE @ ''?societyId='' @ js_String (get_prop (user s) ''society_id'')
          \<and> (\<forall>sid. get_prop (user s) ''society_id'' = JStr sid \<longrightarrow>
                sid \<noteq> [] \<and> url r = ''http://localhost:8080/api/admin/users?societyId='' @ sid))
   \<and> (\<not> truthy (opt_prop (user s) ''society_id'') \<longrightarrow>
          users_query s = None \<and> page_users s server = [])"
proof -
  have "req_method r = ''GET''
        \<and> url r = API_BASE @ ''?societyId='' @ js_String (get_prop (user s) ''society_id'')
        \<and> (\<forall>sid. get_prop (user s) ''society_id'' = JStr sid \<longrightarrow>
              sid \<noteq> [] \<and> url r = ''http://localhost:8080/api/admin/users?societyId='' @ sid)"
    if "users_query s = Some r" for r
    using users_query_url [OF that] by (auto simp: API_BASE_def)
  with users_query_Some_iff [of s] users_query_absent [of s server]
  show ?thesis by blast
qed

theorem C9_users_query_witness:
  "users_query admin_session
     = Some \<lparr>req_method = ''GET'',
             url = ''http://localhost:8080/api/admin/users?societyId=soc-1'',
             headers = [(''Content-Type'', ''application/json'')], body = None\<rparr>
   \<and> users_query empty_body_login = None
   \<and> page_users empty_body_login (\<lambda>r. Some [1::nat]) = []"
proof -
  have q: "users_query admin_session
     = Some \<lparr>req_method = ''GET'',
             url = ''http://localhost:8080/api/admin/users?societyId=soc-1'',
             headers = [(''Content-Type'', ''application/json'')], body = None\<rparr>"
    by (simp add: admin_session_def users_query_def users_query_enabled_def login_def
        build_authResponse_def built_user_def initial_auth_def isAuthenticated_def js_or_def
        opt_prop_def nullish_def fetchUsers_def API_BASE_def getHeaders_def AUTH_STORAGE_KEY_def)
  have e: "\<not> truthy (opt_prop (user empty_body_login) ''society_id'')"
    by (simp add: empty_body_login_def login_def build_authResponse_def built_user_def
        initial_auth_def js_or_def opt_prop_def nullish_def)
  from C9_users_query [of empty_body_login "\<lambda>r. Some [1::nat]"] e q
  show ?thesis by blast
qed

section \<open>Soft delete\<close>

lemma findIndex_Some:
  "findIndex P xs = Some i \<Longrightarrow> i < length xs \<and> P (xs ! i) \<and> (\<forall>j<i. \<not> P (xs ! j))"
proof (induction xs arbitrary: i)
  case Nil
  then show ?case by simp
next
  case (Cons x xs)
  show ?case
  proof (cases "P x")
    case True
    with Cons.prems show ?thesis by simp
  next
    case False
    with Cons.prems obtain k where k: "findIndex P xs = Some k" and i: "i = Suc k"
      by (auto split: option.splits)
    from Cons.IH [OF k] False i show ?thesis
      by (auto simp: less_Suc_eq_0_disj)
  qed
qed

lemma findIndex_None: "findIndex P xs = None \<longleftrightarrow> (\<forall>x\<in>set xs. \<not> P x)"
  by (induction xs) (auto split: option.splits)

lemma softDeleteUser_found:
  assumes "softDeleteUser uid mockUsers = Inr (mockUsers', u')"
  shows "\<exists>i<length mockUsers.
           user_id (mockUsers ! i) = uid \<and> (\<forall>j<i. user_id (mockUsers ! j) \<noteq> uid)
           \<and> u' = (mockUsers ! i)\<lparr>is_active := False\<rparr>
           \<and> mockUsers' = mockUsers[i := u']"
proof -
  from assms obtain i where i: "findIndex (\<lambda>u. user_id u = uid) mockUsers = Some i"
    by (auto simp: softDeleteUser_def split: option.splits)
  from findIndex_Some [OF i] have b: "i < length mockUsers"
    and h: "user_id (mockUsers ! i) = uid" and f: "\<forall>j<i. user_id (mockUsers ! j) \<noteq> uid"
    by simp_all
  from assms i b have "u' = (mockUsers ! i)\<lparr>is_active := False\<rparr>"
    and "mockUsers' = mockUsers[i := (mockUsers ! i)\<lparr>is_active := False\<rparr>]"
    by (auto simp: softDeleteUser_def Let_def)
  with b h f show ?thesis by blast
qed

lemma softDeleteUser_missing:
  "softDeleteUser uid mockUsers = Inl msg
     \<longleftrightarrow> msg = ''User not found'' \<and> (\<forall>u\<in>set mockUsers. user_id u \<noteq> uid)"
proof (cases "findIndex (\<lambda>u. user_id u = uid) mockUsers")
  case None
  then show ?thesis
    using findIndex_None [of "\<lambda>u. user_id u = uid" mockUsers]
    by (auto simp: softDeleteUser_def)
next
  case (Some i)
  then have "\<not> (\<forall>u\<in>set mockUsers. user_id u \<noteq> uid)"
    using findIndex_None [of "\<lambda>u. user_id u = uid" mockUsers] by simp
  with Some show ?thesis
    by (auto simp: softDeleteUser_def Let_def)
qed

lemma delete_click_eq:
  "delete_click ls u =
     (if is_active u
      then Some \<lparr>req_method = ''PATCH'',
                 url = API_BASE @ ''/'' @ user_id u @ ''/status?active=false'',
                 headers = getHeaders ls, body = None\<rparr>
      else None)"
  by (simp add: delete_click_def delete_disabled_def deleteMutation_def toggleUserStatus_def)

text \<open>
  C10. In the mock API layer \<open>softDeleteUser\<close> succeeds exactly when a record with the
  given id exists; it then replaces the first such record, in place, by a copy that has
  \<open>is_active\<close> false and the same \<open>user_id\<close>, \<open>society_id\<close>, \<open>full_name\<close>, \<open>email\<close>,
  \<open>phone\<close> and \<open>user_type\<close>; the list keeps its length and every other record. In the
  live page the Delete button is disabled exactly for rows that are not active, and a
  click on an enabled one issues the status toggle with \<open>active=false\<close> for that row.
\<close>

theorem C10_soft_delete:
  "(\<forall>mockUsers' u'. softDeleteUser uid mockUsers = Inr (mockUsers', u') \<longrightarrow>
      (\<exists>i<length mockUsers.
          user_id (mockUsers ! i) = uid
          \<and> mockUsers' = mockUsers[i := u']
          \<and> length mockUsers' = length mockUsers
          \<and> mockUsers' ! i = u'
          \<and> (\<forall>j<length mockUsers. j \<noteq> i \<longrightarrow> mockUsers' ! j = mockUsers ! j)
          \<and> \<not> is_active u'
          \<and> user_id u' = user_id (mockUsers ! i)
          \<and> society_id u' = society_id (mockUsers ! i)
          \<and> full_name u' = full_name (mockUsers ! i)
          \<and> email u' = email (mockUsers ! i)
          \<and> phone u' = phone (mockUsers ! i)
          \<and> user_type u' = user_type (mockUsers ! i)))
   \<and> ((\<exists>u\<in>set mockUsers. user_id u = uid)
        \<longleftrightarrow> (\<exists>mockUsers' u'. softDeleteUser uid mockUsers = Inr (mockUsers', u')))
   \<and> (delete_disabled row \<longleftrightarrow> \<not> is_active row)
   \<and> (delete_disabled_mock isPending u \<longleftrightarrow> isPending \<or> \<not> is_active u)
   \<and> delete_click ls row =
        (if is_active row
         then Some \<lparr>req_method = ''PATCH'',
                    url = ''http://localhost:8080/api/admin/users/'' @ user_id row
                          @ ''/status?active=false'',
                    headers = getHeaders ls, body = None\<rparr>
         else None)"
proof (intro conjI allI impI)
  fix mockUsers' u'
  assume a: "softDeleteUser uid mockUsers = Inr (mockUsers', u')"
  from softDeleteUser_found [OF a] obtain i where
    i: "i < length mockUsers" "user_id (mockUsers ! i) = uid"
      "u' = (mockUsers ! i)\<lparr>is_active := False\<rparr>" "mockUsers' = mockUsers[i := u']"
    by blast
  then have "user_id (mockUsers ! i) = uid
          \<and> mockUsers' = mockUsers[i := u']
          \<and> length mockUsers' = length mockUsers
          \<and> mockUsers' ! i = u'
          \<and> (\<forall>j<length mockUsers. j \<noteq> i \<longrightarrow> mockUsers' ! j = mockUsers ! j)
          \<and> \<not> is_active u'
          \<and> user_id u' = user_id (mockUsers ! i)
          \<and> society_id u' = society_id (mockUsers ! i)
          \<and> full_name u' = full_name (mockUsers ! i)
          \<and> email u' = email (mockUsers ! i)
          \<and> phone u' = phone (mockUsers ! i)
          \<and> user_type u' = user_type (mockUsers ! i)"
    by simp
  with i(1) show "\<exists>i<length mockUsers.
          user_id (mockUsers ! i) = uid
          \<and> mockUsers' = mockUsers[i := u']
          \<and> length mockUsers' = length mockUsers
          \<and> mockUsers' ! i = u'
          \<and> (\<forall>j<length mockUsers. j \<noteq> i \<longrightarrow> mockUsers' ! j = mockUsers ! j)
          \<and> \<not> is_active u'
          \<and> user_id u' = user_id (mockUsers ! i)
          \<and> society_id u' = society_id (mockUsers ! i)
          \<and> full_name u' = full_name (mockUsers ! i)
          \<and> email u' = email (mockUsers ! i)
          \<and> phone u' = phone (mockUsers ! i)
          \<and> user_type u' = user_type (mockUsers ! i)"
    by blast
next
  show "(\<exists>u\<in>set mockUsers. user_id u = uid)
        \<longleftrightarrow> (\<exists>mockUsers' u'. softDeleteUser uid mockUsers = Inr (mockUsers', u'))"
  proof (cases "softDeleteUser uid mockUsers")
    case (Inl msg)
    with softDeleteUser_missing [of uid mockUsers msg] show ?thesis by auto
  next
    case (Inr p)
    obtain a b where p: "p = (a, b)" by (cases p)
    from softDeleteUser_found [OF Inr [unfolded p]] have "\<exists>u\<in>set mockUsers. user_id u = uid"
      by (metis nth_mem)
    with Inr p show ?thesis by auto
  qed
next
  show "delete_disabled row \<longleftrightarrow> \<not> is_active row"
    by (simp add: delete_disabled_def)
next
  show "delete_disabled_mock isPending u \<longleftrightarrow> isPending \<or> \<not> is_active u"
    by (simp add: delete_disabled_mock_def)
next
  show "delete_click ls row =
        (if is_active row
         then Some \<lparr>req_method = ''PATCH'',
                    url = ''http://localhost:8080/api/admin/users/'' @ user_id row
                          @ ''/status?active=false'',
                    headers = getHeaders ls, body = None\<rparr>
         else None)"
    by (simp add: delete_click_eq API_BASE_def)
qed

theorem C10_soft_delete_witness:
  "softDeleteUser ''bbbbbbbb-bbbb-bbbb-bbbb-bbbbbbbbbbbb'' mockUsers_initial
     = Inr ([mockUsers_initial ! 0, (mockUsers_initial ! 1)\<lparr>is_active := False\<rparr>],
            (mockUsers_initial ! 1)\<lparr>is_active := False\<rparr>)
   \<and> (\<exists>m u. softDeleteUser ''bbbbbbbb-bbbb-bbbb-bbbb-bbbbbbbbbbbb'' mockUsers_initial = Inr (m, u))"
proof -
  have "\<exists>u\<in>set mockUsers_initial. user_id u = ''bbbbbbbb-bbbb-bbbb-bbbb-bbbbbbbbbbbb''"
    by (simp add: mockUsers_initial_def)
  with C10_soft_delete [of "''bbbbbbbb-bbbb-bbbb-bbbb-bbbbbbbbbbbb''" mockUsers_initial]
  have "\<exists>m u. softDeleteUser ''bbbbbbbb-bbbb-bbbb-bbbb-bbbbbbbbbbbb'' mockUsers_initial = Inr (m, u)"
    by blast
  moreover have "softDeleteUser ''bbbbbbbb-bbbb-bbbb-bbbb-bbbbbbbbbbbb'' mockUsers_initial
     = Inr ([mockUsers_initial ! 0, (mockUsers_initial ! 1)\<lparr>is_active := False\<rparr>],
            (mockUsers_initial ! 1)\<lparr>is_active := False\<rparr>)"
    by (simp add: softDeleteUser_def mockUsers_initial_def)
  ultimately show ?thesis by blast
qed

section \<open>Restoring the session on mount\<close>









section \<open>The attempt limit of the OTP step\<close>


lemma handleVerifyOtp_blocked:
  assumes "attempts s \<ge> 3"
  shows "snd (handleVerifyOtp s) = None"
    and "snd (verify_click s) = None"
    and "error (fst (handleVerifyOtp s)) =
           (if js_trim (otp s) = [] \<or> length (otp s) \<noteq> 6
            then ''Please enter a valid 6-digit OTP''
            else ''Maximum attempts exceeded. Please request a new OTP.'')"
  using assms
  by (simp_all add: handleVerifyOtp_def verify_click_def verify_disabled_def MAX_ATTEMPTS_def)





lemma attempts_kept:
  "attempts (fst (handleVerifyOtp s)) = attempts s"
  "attempts (fst (verify_click s)) = attempts s"
  "attempts (setOtp_input v s) = attempts s"
  "attempts (tick now s) = attempts s"
  "attempts (fst (handleSendOtp s)) = attempts s"
  by (simp_all add: handleVerifyOtp_def verify_click_def setOtp_input_def tick_def
      handleSendOtp_def Let_def split: option.splits)









section \<open>Expiry of the OTP\<close>

lemma tick_expired:
  assumes "timer s" and "otpSentTime s = Some sent" and "now - sent \<ge> 600000"
  shows "error (tick now s) = ''OTP has expired. Please request a new one.''"
    and "otp (tick now s) = []"
    and "\<not> timer (tick now s)"
    and "timeLeft (tick now s) \<le> 0"
proof -
  from assms(3) have "(now - sent) div 1000 \<ge> 600" by linarith
  then have "OTP_EXPIRY_MINUTES * 60 - (now - sent) div 1000 \<le> 0"
    by (simp add: OTP_EXPIRY_MINUTES_def)
  with assms(1,2) show "error (tick now s) = ''OTP has expired. Please request a new one.''"
    and "otp (tick now s) = []" and "\<not> timer (tick now s)" and "timeLeft (tick now s) \<le> 0"
    by (simp_all add: tick_def Let_def)
qed

lemma dropWhile_none: "\<forall>c\<in>set xs. \<not> P c \<Longrightarrow> dropWhile P xs = xs"
  by (cases xs) auto

lemma js_trim_no_space:
  assumes "\<forall>c\<in>set xs. \<not> is_space c"
  shows "js_trim xs = xs"
  using assms by (simp add: js_trim_def dropWhile_none)

lemma is_digit_not_space: "is_digit c \<Longrightarrow> \<not> is_space c"
  by (auto simp: is_digit_def is_space_def)

lemma otp_input_digits: "\<forall>c\<in>set (take 6 (filter is_digit v)). is_digit c"
  by (auto dest: in_set_takeD)

lemma verify_click_sends:
  assumes "\<not> dialog_isLoading s" and "attempts s < 3" and "length (otp s) = 6"
    and "js_trim (otp s) \<noteq> []"
  shows "snd (verify_click s) =
           Some \<lparr>req_method = ''POST'', url = AUTH_API_BASE @ ''/verify-otp'',
                 headers = [(''Content-Type'', ''application/json'')],
                 body = Some (JObj [(''email'', JStr (email_input s)),
                                    (''otp'', JStr (otp s))])\<rparr>"
  using assms
  by (simp add: verify_click_def verify_disabled_def handleVerifyOtp_def MAX_ATTEMPTS_def)

lemma verify_after_typing:
  assumes "\<not> dialog_isLoading s" and "attempts s < 3" and "length (filter is_digit v) \<ge> 6"
  shows "snd (verify_click (setOtp_input v s)) =
           Some \<lparr>req_method = ''POST'', url = AUTH_API_BASE @ ''/verify-otp'',
                 headers = [(''Content-Type'', ''application/json'')],
                 body = Some (JObj [(''email'', JStr (email_input s)),
                                    (''otp'', JStr (take 6 (filter is_digit v)))])\<rparr>"
proof -
  let ?t = "setOtp_input v s"
  have o: "otp ?t = take 6 (filter is_digit v)"
    and e: "email_input ?t = email_input s"
    and l: "\<not> dialog_isLoading ?t" and a: "attempts ?t < 3"
    using assms(1,2) by (simp_all add: setOtp_input_def)
  from assms(3) have len: "length (otp ?t) = 6"
    unfolding o by simp
  have "\<forall>c\<in>set (otp ?t). \<not> is_space c"
    unfolding o using otp_input_digits is_digit_not_space by blast
  then have "js_trim (otp ?t) = otp ?t"
    by (rule js_trim_no_space)
  with len have tr: "js_trim (otp ?t) \<noteq> []"
    by auto
  from verify_click_sends [OF l a len tr] show ?thesis
    unfolding o e .
qed

lemma tick_keeps:
  "dialog_isLoading (tick now s) = dialog_isLoading s"
  "email_input (tick now s) = email_input s"
  by (simp_all add: tick_def Let_def split: option.splits)

text \<open>
  C5. When the interval fires ten minutes or more after the OTP was sent, the dialog shows
  "OTP has expired. Please request a new one.", empties the code and stops the countdown,
  as the claim says. The claim's last part fails on the code: nothing records the expiry,
  so while no request is pending and fewer than 3 attempts were made, typing six digits
  again enables the Verify button and a click sends the verify-otp request with that code,
  without a new OTP having been requested.
\<close>

theorem C5_expired_code_submitted:
  assumes "timer s" and "otpSentTime s = Some sent" and "now - sent \<ge> 600000"
    and "\<not> dialog_isLoading s" and "attempts s < 3" and "length (filter is_digit v) \<ge> 6"
  shows "error (tick now s) = ''OTP has expired. Please request a new one.''
         \<and> otp (tick now s) = []
         \<and> \<not> timer (tick now s)
         \<and> snd (verify_click (setOtp_input v (tick now s))) =
             Some \<lparr>req_method = ''POST'', url = ''http://localhost:8080/auth/verify-otp'',
                   headers = [(''Content-Type'', ''application/json'')],
                   body = Some (JObj [(''email'', JStr (email_input s)),
                                      (''otp'', JStr (take 6 (filter is_digit v)))])\<rparr>"
proof -
  have "\<not> dialog_isLoading (tick now s)" and "attempts (tick now s) < 3"
    using assms(4,5) by (simp_all add: tick_keeps attempts_kept)
  from verify_after_typing [OF this assms(6)] tick_expired [OF assms(1-3)]
  show ?thesis by (simp add: tick_keeps AUTH_API_BASE_def)
qed

theorem C5_expired_code_submitted_witness:
  "error (tick 601000 otp_sent) = ''OTP has expired. Please request a new one.''
   \<and> otp (tick 601000 otp_sent) = []
   \<and> \<not> timer (tick 601000 otp_sent)
   \<and> snd (verify_click (setOtp_input ''123456'' (tick 601000 otp_sent)))
       = Some \<lparr>req_method = ''POST'', url = ''http://localhost:8080/auth/verify-otp'',
                headers = [(''Content-Type'', ''application/json'')],
                body = Some (JObj [(''email'', JStr ''admin@example.com''),
                                   (''otp'', JStr ''123456'')])\<rparr>"
proof -
  have s: "timer otp_sent" "otpSentTime otp_sent = Some 1000" "\<not> dialog_isLoading otp_sent"
    "attempts otp_sent < 3" "email_input otp_sent = ''admin@example.com''"
    by (simp_all add: otp_sent_def onSendOtpResponse_def handleSendOtp_def initial_dialog_def
        timer_effect_def js_trim_def is_space_def)
  have t: "(601000::int) - 1000 \<ge> 600000"
    by simp
  have l: "length (filter is_digit ''123456'') \<ge> 6"
    by (simp add: is_digit_def)
  from C5_expired_code_submitted [OF s(1,2) t s(3,4) l] show ?thesis
    by (simp add: s(5) is_digit_def)
qed

section \<open>The user built from a verify-otp response\<close>








section \<open>The users filter\<close>








end
